theory Spec2Isabelle
  imports Main "HOL-Library.Word"
begin

section \<open>The platform: Go's standard library, runtime and the colour package\<close>

text \<open>
  Package \<open>clog\<close> is a thin layer over \<open>fmt\<close>, \<open>time\<close>, \<open>runtime\<close>, \<open>strings\<close>,
  \<open>path/filepath\<close> and \<open>github.com/fatih/color\<close>. What those packages answer at a call
  is collected in one record, so that every function of the package is a pure function
  of the platform and of the package's variables:
  \<^item> \<open>fmt_Sprintf\<close> is \<open>fmt.Sprintf(format, args...)\<close> on a caller's template and operands,
    and \<open>fmt_v\<close> is what the verb \<open>%v\<close> prints for one operand;
  \<^item> \<open>color_Sprint\<close> is \<open>color.New(attrs...).Sprint(text)\<close>;
  \<^item> \<open>time_now\<close> is \<open>time.Now().UTC().Format("2006-01-02 15:04:05.000 UTC")\<close>;
  \<^item> \<open>runtime_Caller skip\<close> is \<open>Some (file, line)\<close> when \<open>runtime.Caller(skip)\<close> reports
    \<open>ok\<close>, and \<open>None\<close> otherwise;
  \<^item> \<open>goid\<close> and \<open>traceback\<close> are the number of the calling goroutine (an unsigned
    64-bit integer in the runtime) and the text that the runtime prints after that number
    in a stack dump.
\<close>

datatype Attribute =
  Bold | FgRed | FgGreen | FgYellow | FgBlue | FgMagenta | FgCyan | FgWhite
  | FgHiRed | FgHiBlue | FgHiMagenta

record 'a platform =
  fmt_Sprintf :: "string \<Rightarrow> 'a list \<Rightarrow> string"
  fmt_v :: "'a \<Rightarrow> string"
  color_Sprint :: "Attribute list \<Rightarrow> string \<Rightarrow> string"
  time_now :: string
  runtime_Caller :: "nat \<Rightarrow> (string \<times> int) option"
  goid :: "64 word"
  traceback :: string

subsection \<open>Decimal numerals (\<open>%d\<close>)\<close>

definition digit :: "nat \<Rightarrow> char" where
  "digit d = ''0123456789'' ! d"

fun digits :: "nat \<Rightarrow> string" where
  "digits n = (if n < 10 then [digit n] else digits (n div 10) @ [digit (n mod 10)])"

declare digits.simps [simp del]

definition FormatInt :: "int \<Rightarrow> string" where
  "FormatInt i = (if i < 0 then CHR ''-'' # digits (nat (- i)) else digits (nat i))"

subsection \<open>\<open>strings.TrimPrefix\<close>, \<open>strings.Fields\<close>, \<open>strings.Join\<close>\<close>

definition TrimPrefix :: "string \<Rightarrow> string \<Rightarrow> string" where
  "TrimPrefix s pre = (if take (length pre) s = pre then drop (length pre) s else s)"

text \<open>
  White space as \<open>strings.Fields\<close> sees it on ASCII text: tab, line feed, vertical tab,
  form feed, carriage return and space. A field is a longest run of other characters.
  (On text that is not ASCII the library also splits at Unicode white space; the header
  of a stack dump, which is all that the package reads, is ASCII.)
\<close>

definition isSpace :: "char \<Rightarrow> bool" where
  "isSpace c = (c \<in> set [CHR 0x09, CHR 0x0A, CHR 0x0B, CHR 0x0C, CHR 0x0D, CHR 0x20])"

function Fields :: "string \<Rightarrow> string list" where
  "Fields [] = []"
| "Fields (c # cs) =
     (if isSpace c then Fields cs
      else takeWhile (\<lambda>x. \<not> isSpace x) (c # cs) # Fields (dropWhile (\<lambda>x. \<not> isSpace x) (c # cs)))"
  by pat_completeness auto
termination
  by (relation "measure length") (auto simp: less_Suc_eq_le length_dropWhile_le)

fun Join :: "string list \<Rightarrow> string \<Rightarrow> string" where
  "Join [] sep = []"
| "Join [x] sep = x"
| "Join (x # y # ys) sep = x @ sep @ Join (y # ys) sep"

subsection \<open>\<open>filepath.Base\<close>\<close>

text \<open>
  The last element of a slash-separated path, as \<open>runtime.Caller\<close> reports paths:
  trailing slashes are dropped first, the empty path gives a dot and a path of slashes
  only gives one slash.
\<close>

definition Base :: "string \<Rightarrow> string" where
  "Base path =
     (if path = [] then ''.''
      else let stripped = rev (dropWhile (\<lambda>c. c = CHR ''/'') (rev path));
               elem = rev (takeWhile (\<lambda>c. c \<noteq> CHR ''/'') (rev stripped))
           in if elem = [] then ''/'' else elem)"

subsection \<open>\<open>runtime.Stack\<close>\<close>

text \<open>
  \<open>runtime.Stack(buf, false)\<close> prints the header of the calling goroutine, which starts
  with the word \<open>goroutine\<close>, a space, the goroutine's number and a space, and then the
  rest of the dump; it keeps what fits into \<open>buf\<close>.
\<close>

definition runtime_Stack :: "'a platform \<Rightarrow> nat \<Rightarrow> string" where
  "runtime_Stack p n = take n (''goroutine '' @ digits (unat (goid p)) @ '' '' @ traceback p)"

section \<open>Package clog\<close>

subsection \<open>Prefixes\<close>

definition infoPrefix :: "'a platform \<Rightarrow> string" where
  "infoPrefix p =
     color_Sprint p [FgCyan] ([CHR 0xE2, CHR 0x84, CHR 0xB9, CHR 0xEF, CHR 0xB8, CHR 0x8F] @ ''  INFO     '')"

definition successPrefix :: "'a platform \<Rightarrow> string" where
  "successPrefix p = color_Sprint p [FgGreen] ([CHR 0xE2, CHR 0x9C, CHR 0x85] @ '' SUCCESS  '')"

definition initPrefix :: "'a platform \<Rightarrow> string" where
  "initPrefix p = color_Sprint p [FgBlue] ([CHR 0xF0, CHR 0x9F, CHR 0x9A, CHR 0x80] @ '' INIT     '')"

definition configPrefix :: "'a platform \<Rightarrow> string" where
  "configPrefix p =
     color_Sprint p [FgMagenta] ([CHR 0xE2, CHR 0x9A, CHR 0x99, CHR 0xEF, CHR 0xB8, CHR 0x8F] @ ''  CONFIG   '')"

definition warningPrefix :: "'a platform \<Rightarrow> string" where
  "warningPrefix p =
     color_Sprint p [FgYellow] ([CHR 0xE2, CHR 0x9A, CHR 0xA0, CHR 0xEF, CHR 0xB8, CHR 0x8F] @ ''  WARNING  '')"

definition errorPrefix :: "'a platform \<Rightarrow> string" where
  "errorPrefix p = color_Sprint p [FgRed] ([CHR 0xE2, CHR 0x9D, CHR 0x8C] @ '' ERROR    '')"

definition debugPrefix :: "'a platform \<Rightarrow> string" where
  "debugPrefix p = color_Sprint p [FgWhite] ([CHR 0xF0, CHR 0x9F, CHR 0x94, CHR 0x8D] @ '' DEBUG    '')"

definition tracePrefix :: "'a platform \<Rightarrow> string" where
  "tracePrefix p = color_Sprint p [FgHiBlue] ([CHR 0xF0, CHR 0x9F, CHR 0x93, CHR 0x8D] @ '' TRACE    '')"

definition panicPrefix :: "'a platform \<Rightarrow> string" where
  "panicPrefix p = color_Sprint p [FgHiRed, Bold] ([CHR 0xF0, CHR 0x9F, CHR 0x92, CHR 0xA5] @ '' PANIC    '')"

definition metricPrefix :: "'a platform \<Rightarrow> string" where
  "metricPrefix p = color_Sprint p [FgHiMagenta] ([CHR 0xF0, CHR 0x9F, CHR 0x93, CHR 0x8A] @ '' METRIC   '')"

subsection \<open>Levels\<close>

type_synonym LogLevel = int

definition PanicLevel :: LogLevel where "PanicLevel = 0"
definition ErrorLevel :: LogLevel where "ErrorLevel = 1"
definition WarningLevel :: LogLevel where "WarningLevel = 2"
definition InfoLevel :: LogLevel where "InfoLevel = 3"
definition DebugLevel :: LogLevel where "DebugLevel = 4"
definition TraceLevel :: LogLevel where "TraceLevel = 5"

subsection \<open>Package variables and standard output\<close>

text \<open>
  The three package variables, and the writes that standard output has received so far,
  one entry for each call of \<open>fmt.Println\<close>.
\<close>

record state =
  currentLogLevel :: LogLevel
  showFileLine :: bool
  showGoroutineID :: bool
  stdout :: "string list"

definition init_state :: state where
  "init_state = \<lparr>currentLogLevel = InfoLevel, showFileLine = True, showGoroutineID = True, stdout = []\<rparr>"

text \<open>
  A call either returns or leaves by a panic: the panic raised by \<open>Panic\<close> carries a
  string, and indexing an empty slice raises the runtime's index error.
\<close>

datatype go_panic = PanicValue string | IndexOutOfRange

type_synonym outcome = "go_panic option"

definition Println :: "string \<Rightarrow> state \<Rightarrow> state" where
  "Println line s = s\<lparr>stdout := stdout s @ [line @ [CHR 0x0A]]\<rparr>"

subsection \<open>Setters\<close>

definition SetLogLevel :: "LogLevel \<Rightarrow> state \<Rightarrow> state" where
  "SetLogLevel level s = s\<lparr>currentLogLevel := level\<rparr>"

definition SetShowFileLine :: "bool \<Rightarrow> state \<Rightarrow> state" where
  "SetShowFileLine show s = s\<lparr>showFileLine := show\<rparr>"

definition SetShowGoroutineID :: "bool \<Rightarrow> state \<Rightarrow> state" where
  "SetShowGoroutineID show s = s\<lparr>showGoroutineID := show\<rparr>"

subsection \<open>Annotations\<close>

definition getFileInfo :: "'a platform \<Rightarrow> state \<Rightarrow> string" where
  "getFileInfo p s =
     (if \<not> showFileLine s then ''''
      else case runtime_Caller p 3 of
             None \<Rightarrow> ''''
           | Some (file, line) \<Rightarrow> Base file @ '':'' @ FormatInt line)"

definition getGoroutineID :: "'a platform \<Rightarrow> state \<Rightarrow> go_panic + string" where
  "getGoroutineID p s =
     (if \<not> showGoroutineID s then Inr ''''
      else case Fields (TrimPrefix (runtime_Stack p 64) ''goroutine '') of
             [] \<Rightarrow> Inl IndexOutOfRange
           | ident # _ \<Rightarrow> Inr (''(goroutine '' @ ident @ '')''))"

subsection \<open>The emit routine\<close>

definition logWithTimestamp :: "'a platform \<Rightarrow> string \<Rightarrow> string \<Rightarrow> LogLevel \<Rightarrow> state \<Rightarrow> outcome \<times> state" where
  "logWithTimestamp p prefix msg level s =
     (if level > currentLogLevel s then (None, s)
      else
        let timestamp = time_now p;
            fileInfo = getFileInfo p s
        in case getGoroutineID p s of
             Inl err \<Rightarrow> (Some err, s)
           | Inr goroutineInfo \<Rightarrow>
               let logMsg = prefix @ '' ['' @ timestamp @ '']'';
                   logMsg = (if fileInfo \<noteq> '''' then logMsg @ '' ['' @ fileInfo @ '']'' else logMsg);
                   logMsg = (if goroutineInfo \<noteq> '''' then logMsg @ '' '' @ goroutineInfo else logMsg);
                   logMsg = logMsg @ '' '' @ msg
               in (None, Println logMsg s))"

subsection \<open>Channels\<close>

definition Info :: "'a platform \<Rightarrow> string \<Rightarrow> 'a list \<Rightarrow> state \<Rightarrow> outcome \<times> state" where
  "Info p format args s = logWithTimestamp p (infoPrefix p) (fmt_Sprintf p format args) InfoLevel s"

definition Success :: "'a platform \<Rightarrow> string \<Rightarrow> 'a list \<Rightarrow> state \<Rightarrow> outcome \<times> state" where
  "Success p format args s = logWithTimestamp p (successPrefix p) (fmt_Sprintf p format args) InfoLevel s"

definition Init :: "'a platform \<Rightarrow> string \<Rightarrow> 'a list \<Rightarrow> state \<Rightarrow> outcome \<times> state" where
  "Init p format args s = logWithTimestamp p (initPrefix p) (fmt_Sprintf p format args) InfoLevel s"

definition Config :: "'a platform \<Rightarrow> string \<Rightarrow> 'a list \<Rightarrow> state \<Rightarrow> outcome \<times> state" where
  "Config p format args s = logWithTimestamp p (configPrefix p) (fmt_Sprintf p format args) InfoLevel s"

definition Warning :: "'a platform \<Rightarrow> string \<Rightarrow> 'a list \<Rightarrow> state \<Rightarrow> outcome \<times> state" where
  "Warning p format args s = logWithTimestamp p (warningPrefix p) (fmt_Sprintf p format args) WarningLevel s"

definition Error :: "'a platform \<Rightarrow> string \<Rightarrow> 'a list \<Rightarrow> state \<Rightarrow> outcome \<times> state" where
  "Error p format args s = logWithTimestamp p (errorPrefix p) (fmt_Sprintf p format args) ErrorLevel s"

definition Debug :: "'a platform \<Rightarrow> string \<Rightarrow> 'a list \<Rightarrow> state \<Rightarrow> outcome \<times> state" where
  "Debug p format args s = logWithTimestamp p (debugPrefix p) (fmt_Sprintf p format args) DebugLevel s"

definition Trace :: "'a platform \<Rightarrow> string \<Rightarrow> 'a list \<Rightarrow> state \<Rightarrow> outcome \<times> state" where
  "Trace p format args s = logWithTimestamp p (tracePrefix p) (fmt_Sprintf p format args) TraceLevel s"

definition Panic :: "'a platform \<Rightarrow> string \<Rightarrow> 'a list \<Rightarrow> state \<Rightarrow> outcome \<times> state" where
  "Panic p format args s =
     (let msg = fmt_Sprintf p format args
      in case logWithTimestamp p (panicPrefix p) msg PanicLevel s of
           (Some err, s') \<Rightarrow> (Some err, s')
         | (None, s') \<Rightarrow> (Some (PanicValue msg), s'))"

definition Metric :: "'a platform \<Rightarrow> string \<Rightarrow> 'a \<Rightarrow> string list \<Rightarrow> state \<Rightarrow> outcome \<times> state" where
  "Metric p name val tags s =
     (let tagStr = (if length tags > 0 then '' ['' @ Join tags '', '' @ '']'' else '''')
      in logWithTimestamp p (metricPrefix p) (name @ '': '' @ fmt_v p val @ tagStr) InfoLevel s)"

section \<open>The line of the specification\<close>

text \<open>
  The specification assembles a line as
  \<^verbatim>\<open><channel-prefix> [<timestamp>] [<file:line>]? (<context-id>)? <message>\<close>,
  where the bracketed source location appears only when it is enabled and resolved, and
  the parenthesized context identifier only when it is enabled. The three definitions
  below follow these words; the theorems compare them with \<open>logWithTimestamp\<close>.
\<close>

definition spec_file_segment :: "'a platform \<Rightarrow> state \<Rightarrow> string" where
  "spec_file_segment p s =
     (if showFileLine s
      then (case runtime_Caller p 3 of
              None \<Rightarrow> ''''
            | Some (file, line) \<Rightarrow> '' ['' @ Base file @ '':'' @ FormatInt line @ '']'')
      else '''')"

definition spec_context_segment :: "'a platform \<Rightarrow> state \<Rightarrow> string" where
  "spec_context_segment p s =
     (if showGoroutineID s then '' (goroutine '' @ digits (unat (goid p)) @ '')'' else '''')"

definition spec_line :: "'a platform \<Rightarrow> state \<Rightarrow> string \<Rightarrow> string \<Rightarrow> string" where
  "spec_line p s prefix msg =
     prefix @ '' ['' @ time_now p @ '']'' @ spec_file_segment p s @ spec_context_segment p s @ '' '' @ msg"

section \<open>A sample platform\<close>

text \<open>
  A platform on which the package can be run on concrete calls: operands are integers,
  the template language has the one verb \<open>%d\<close>, colours are switched off, the clock is
  stopped, the call comes from line 29 of \<open>main.go\<close> and the goroutine is number 1.
\<close>

fun sample_Sprintf :: "string \<Rightarrow> int list \<Rightarrow> string" where
  "sample_Sprintf [] args = []"
| "sample_Sprintf (c # fs) args =
     (case (c, fs, args) of
        (CHR ''%'', CHR ''d'' # fs', a # args') \<Rightarrow> FormatInt a @ sample_Sprintf fs' args'
      | _ \<Rightarrow> c # sample_Sprintf fs args)"

definition sample_platform :: "int platform" where
  "sample_platform =
     \<lparr>fmt_Sprintf = sample_Sprintf,
      fmt_v = FormatInt,
      color_Sprint = (\<lambda>attrs text. text),
      time_now = ''2024-12-11 15:04:05.127 UTC'',
      runtime_Caller = (\<lambda>skip. if skip = 3 then Some (''/home/dev/app/main.go'', 29) else None),
      goid = 1,
      traceback = ''[running]:''\<rparr>"

section \<open>Decimal numerals and the goroutine header\<close>

lemma digit_not_space: "d < 10 \<Longrightarrow> \<not> isSpace (digit d)"
proof -
  assume "d < 10"
  then have "d \<in> {0, 1, 2, 3, 4, 5, 6, 7, 8, 9}" by auto
  then show ?thesis by (auto simp: digit_def isSpace_def)
qed

lemma digits_not_empty: "digits n \<noteq> []"
  by (subst digits.simps) simp

lemma digits_not_space: "c \<in> set (digits n) \<Longrightarrow> \<not> isSpace c"
proof (induction n rule: digits.induct)
  case (1 n)
  show ?case
  proof (cases "n < 10")
    case True
    with 1(2) show ?thesis by (subst (asm) digits.simps) (simp add: digit_not_space)
  next
    case False
    with 1 show ?thesis by (subst (asm) (2) digits.simps) (auto simp: digit_not_space)
  qed
qed

text \<open>A number below \<open>10 ^ k\<close> has at most \<open>k\<close> digits, so a 64-bit number has at most 20.\<close>

lemma length_digits: "0 < k \<Longrightarrow> n < 10 ^ k \<Longrightarrow> length (digits n) \<le> k"
proof (induction n arbitrary: k rule: digits.induct)
  case (1 n)
  show ?case
  proof (cases "n < 10")
    case True
    with 1(2) show ?thesis by (subst digits.simps) simp
  next
    case False
    then obtain j where k: "k = Suc j" and j: "0 < j"
      using 1(2,3) by (cases k; cases "k - 1") auto
    from 1(3) k have "n div 10 < 10 ^ j" by (simp add: less_mult_imp_div_less mult.commute)
    with 1(1) [OF False j] have "length (digits (n div 10)) \<le> j" .
    with False k show ?thesis by (subst digits.simps) simp
  qed
qed

lemma length_digits_word: "length (digits (unat (w :: 64 word))) \<le> 20"
proof -
  have "unat w < 2 ^ 64" using unsigned_less [of w] by simp
  also have "(2::nat) ^ 64 < 10 ^ 20" by simp
  finally show ?thesis by (intro length_digits) simp_all
qed

text \<open>A text that starts with a word and a space has that word as its first field.\<close>

lemma Fields_first:
  assumes "xs \<noteq> []" and "\<And>c. c \<in> set xs \<Longrightarrow> \<not> isSpace c"
  shows "Fields (xs @ CHR 0x20 # rest) = xs # Fields rest"
proof -
  obtain c cs where xs: "xs = c # cs" using assms(1) by (cases xs) auto
  have sp: "isSpace (CHR 0x20)" by (simp add: isSpace_def)
  have tw: "takeWhile (\<lambda>x. \<not> isSpace x) (xs @ CHR 0x20 # rest) = xs"
    using assms(2) sp by simp
  have dw: "dropWhile (\<lambda>x. \<not> isSpace x) (xs @ CHR 0x20 # rest) = CHR 0x20 # rest"
    using assms(2) sp by simp
  have "\<not> isSpace c" using assms(2) xs by simp
  then have "Fields (xs @ CHR 0x20 # rest) = xs # Fields (CHR 0x20 # rest)"
    using tw dw unfolding xs by simp
  then show ?thesis using sp by simp
qed

lemma TrimPrefix_Stack:
  "TrimPrefix (runtime_Stack p 64) ''goroutine '' = take 54 (digits (unat (goid p)) @ '' '' @ traceback p)"
  by (simp add: TrimPrefix_def runtime_Stack_def)

lemma Fields_Stack:
  "Fields (TrimPrefix (runtime_Stack p 64) ''goroutine '') =
     digits (unat (goid p)) # Fields (take (53 - length (digits (unat (goid p)))) (traceback p))"
proof -
  let ?d = "digits (unat (goid p))"
  have len: "length ?d \<le> 20" by (rule length_digits_word)
  then have "take 54 (?d @ '' '' @ traceback p) = ?d @ CHR 0x20 # take (53 - length ?d) (traceback p)"
    by (simp add: take_Cons')
  then show ?thesis
    unfolding TrimPrefix_Stack
    by (simp add: Fields_first digits_not_empty digits_not_space)
qed

section \<open>The annotations and the emit routine\<close>

text \<open>
  The 64 bytes that \<open>getGoroutineID\<close> asks for hold the whole header number, so the slice
  of fields is never empty and the index \<open>[0]\<close> is in range.
\<close>

lemma getGoroutineID_resolved:
  "getGoroutineID p s =
     Inr (if showGoroutineID s then ''(goroutine '' @ digits (unat (goid p)) @ '')'' else '''')"
  by (simp add: getGoroutineID_def Fields_Stack)

lemma getFileInfo_segment:
  "(if getFileInfo p s \<noteq> '''' then '' ['' @ getFileInfo p s @ '']'' else '''') = spec_file_segment p s"
  by (simp add: getFileInfo_def spec_file_segment_def split: option.splits)

lemma logWithTimestamp_spec_line:
  "logWithTimestamp p prefix msg level s =
     (None, if level \<le> currentLogLevel s
            then s\<lparr>stdout := stdout s @ [spec_line p s prefix msg @ [CHR 0x0A]]\<rparr>
            else s)"
proof (cases "level \<le> currentLogLevel s")
  case False
  then show ?thesis by (simp add: logWithTimestamp_def)
next
  case True
  have "getFileInfo p s = '''' \<Longrightarrow> spec_file_segment p s = ''''"
    using getFileInfo_segment [of p s] by simp
  moreover have "getFileInfo p s \<noteq> '''' \<Longrightarrow> spec_file_segment p s = '' ['' @ getFileInfo p s @ '']''"
    using getFileInfo_segment [of p s] by simp
  ultimately show ?thesis
    using True
    by (simp add: logWithTimestamp_def getGoroutineID_resolved Println_def spec_line_def
        spec_context_segment_def Let_def)
qed

text \<open>
  \<open>getGoroutineID\<close> indexes the slice of fields without testing its length. The index
  is in range because of the header alone: a text without any field has no first field.
\<close>

lemma Fields_without_header: "Fields (TrimPrefix [] ''goroutine '') = []"
  by (simp add: TrimPrefix_def)

text \<open>
  \<open>Panic\<close> always leaves with its own message; the line goes through the same filter as
  that of every other channel, at \<open>PanicLevel\<close>.
\<close>

lemma Panic_spec_line:
  "Panic p f a s =
     (Some (PanicValue (fmt_Sprintf p f a)),
      if PanicLevel \<le> currentLogLevel s
      then s\<lparr>stdout := stdout s @ [spec_line p s (panicPrefix p) (fmt_Sprintf p f a) @ [CHR 0x0A]]\<rparr>
      else s)"
  by (simp add: Panic_def Let_def logWithTimestamp_spec_line)

text \<open>Joining with a comma and a space, written without recursion.\<close>

lemma Join_comma: "Join (t # ts) '', '' = t @ concat (map ((@) '', '') ts)"
  by (induction ts arbitrary: t) simp_all

section \<open>Threshold filtering\<close>



section \<open>The fatal channel\<close>



section \<open>Channels bound to the level of \<open>Info\<close>\<close>

text \<open>
  Claim C3. \<open>Success\<close>, \<open>Init\<close> and \<open>Config\<close> filter at exactly \<open>InfoLevel\<close>: under any
  threshold each of them writes to standard output if and only if \<open>Info\<close> does, whatever
  the templates and operands of the two calls, and \<open>Info\<close> writes if and only if
  \<open>InfoLevel\<close> is at most the threshold.
\<close>

theorem Success_Init_Config_filter_as_Info:
  "(stdout (snd (Success p f a s)) \<noteq> stdout s) = (stdout (snd (Info p f' a' s)) \<noteq> stdout s)
   \<and> (stdout (snd (Init p f a s)) \<noteq> stdout s) = (stdout (snd (Info p f' a' s)) \<noteq> stdout s)
   \<and> (stdout (snd (Config p f a s)) \<noteq> stdout s) = (stdout (snd (Info p f' a' s)) \<noteq> stdout s)
   \<and> (stdout (snd (Info p f' a' s)) \<noteq> stdout s) = (InfoLevel \<le> currentLogLevel s)"
  by (simp add: Info_def Success_def Init_def Config_def logWithTimestamp_spec_line)

theorem Success_Init_Config_filter_as_Info_witness:
  "stdout (snd (Success sample_platform ''up'' [] init_state)) \<noteq> []
   \<and> stdout (snd (Info sample_platform ''x'' [] init_state)) \<noteq> []
   \<and> stdout (snd (Config sample_platform ''up'' [] (SetLogLevel WarningLevel init_state))) = []
   \<and> stdout (snd (Info sample_platform ''x'' [] (SetLogLevel WarningLevel init_state))) = []"
  using Success_Init_Config_filter_as_Info [of sample_platform "''up''" "[]" init_state "''x''" "[]"]
    Success_Init_Config_filter_as_Info
      [of sample_platform "''up''" "[]" "SetLogLevel WarningLevel init_state" "''x''" "[]"]
  by (simp add: init_state_def SetLogLevel_def InfoLevel_def WarningLevel_def)

section \<open>Metrics\<close>

text \<open>
  Claim C4. The message of \<open>Metric\<close> is the name, a colon and a space, and the value as
  \<open>%v\<close> prints it; with no tag nothing follows, and with tags a space and, between square
  brackets, the first tag followed by a comma, a space and the tag for every further
  tag in the order of the call. \<open>Metric\<close> filters at \<open>InfoLevel\<close>: the line is written if
  and only if \<open>InfoLevel\<close> is at most the threshold.
\<close>

theorem Metric_message:
  "Metric p name val tags s =
     (None, if InfoLevel \<le> currentLogLevel s
            then s\<lparr>stdout := stdout s @
                   [spec_line p s (metricPrefix p)
                      (name @ '': '' @ fmt_v p val
                       @ (case tags of
                            [] \<Rightarrow> ''''
                          | t # ts \<Rightarrow> '' ['' @ t @ concat (map ((@) '', '') ts) @ '']''))
                    @ [CHR 0x0A]]\<rparr>
            else s)"
  by (cases tags) (simp_all add: Metric_def logWithTimestamp_spec_line Join_comma del: Join.simps)

theorem Metric_message_witness:
  "Metric sample_platform ''active_connections'' 42 [''db=postgres'', ''host=primary''] init_state
     = (None, init_state
          \<lparr>stdout := [[CHR 0xF0, CHR 0x9F, CHR 0x93, CHR 0x8A]
                       @ '' METRIC    [2024-12-11 15:04:05.127 UTC] [main.go:29] (goroutine 1) ''
                       @ ''active_connections: 42 [db=postgres, host=primary]''
                       @ [CHR 0x0A]]\<rparr>)
   \<and> Metric sample_platform ''user_registrations'' 1 [] init_state
     = (None, init_state
          \<lparr>stdout := [[CHR 0xF0, CHR 0x9F, CHR 0x93, CHR 0x8A]
                       @ '' METRIC    [2024-12-11 15:04:05.127 UTC] [main.go:29] (goroutine 1) ''
                       @ ''user_registrations: 1''
                       @ [CHR 0x0A]]\<rparr>)"
  using Metric_message [of sample_platform "''active_connections''" 42 "[''db=postgres'', ''host=primary'']" init_state]
    Metric_message [of sample_platform "''user_registrations''" 1 "[]" init_state]
  by (simp add: sample_platform_def init_state_def InfoLevel_def metricPrefix_def
      spec_line_def spec_file_segment_def spec_context_segment_def
      Base_def FormatInt_def digits.simps digit_def)

section \<open>Annotations that cannot be resolved\<close>

text \<open>
  Claim C5. Formatting a record never fails. The emit routine returns normally for every
  answer of the platform, and no channel leaves by the runtime's index error (\<open>Panic\<close>
  leaves only by its own panic). When \<open>runtime.Caller\<close> cannot report the call site the
  source location is the empty string and the line has no bracketed location; the
  lookup of the context identifier always yields a string, and when that string is
  empty the line has no parenthesized identifier.
\<close>

theorem annotation_lookups_never_fail:
  "fst (logWithTimestamp p prefix msg level s) = None
   \<and> (\<exists>g. getGoroutineID p s = Inr g)
   \<and> (runtime_Caller p 3 = None \<longrightarrow> getFileInfo p s = '''')
   \<and> (level \<le> currentLogLevel s \<and> getFileInfo p s = '''' \<longrightarrow>
        stdout (snd (logWithTimestamp p prefix msg level s)) =
          stdout s @ [prefix @ '' ['' @ time_now p @ '']'' @ spec_context_segment p s @ '' '' @ msg @ [CHR 0x0A]])
   \<and> (level \<le> currentLogLevel s \<and> getGoroutineID p s = Inr '''' \<longrightarrow>
        stdout (snd (logWithTimestamp p prefix msg level s)) =
          stdout s @ [prefix @ '' ['' @ time_now p @ '']'' @ spec_file_segment p s @ '' '' @ msg @ [CHR 0x0A]])
   \<and> fst (Info p f a s) \<noteq> Some IndexOutOfRange
   \<and> fst (Success p f a s) \<noteq> Some IndexOutOfRange
   \<and> fst (Init p f a s) \<noteq> Some IndexOutOfRange
   \<and> fst (Config p f a s) \<noteq> Some IndexOutOfRange
   \<and> fst (Warning p f a s) \<noteq> Some IndexOutOfRange
   \<and> fst (Error p f a s) \<noteq> Some IndexOutOfRange
   \<and> fst (Debug p f a s) \<noteq> Some IndexOutOfRange
   \<and> fst (Trace p f a s) \<noteq> Some IndexOutOfRange
   \<and> fst (Panic p f a s) \<noteq> Some IndexOutOfRange
   \<and> fst (Metric p name val tags s) \<noteq> Some IndexOutOfRange"
proof -
  have fseg: "getFileInfo p s = '''' \<Longrightarrow> spec_file_segment p s = ''''"
    using getFileInfo_segment [of p s] by simp
  have ctx: "getGoroutineID p s = Inr '''' \<Longrightarrow> spec_context_segment p s = ''''"
    by (simp add: getGoroutineID_resolved spec_context_segment_def split: if_splits)
  have "runtime_Caller p 3 = None \<longrightarrow> getFileInfo p s = ''''"
    by (simp add: getFileInfo_def)
  moreover have "\<exists>g. getGoroutineID p s = Inr g"
    by (simp add: getGoroutineID_resolved)
  ultimately show ?thesis
    using fseg ctx
    by (simp add: logWithTimestamp_spec_line spec_line_def Panic_spec_line Info_def Success_def
        Init_def Config_def Warning_def Error_def Debug_def Trace_def Metric_def)
qed

theorem annotation_lookups_never_fail_witness:
  "runtime_Caller (sample_platform\<lparr>runtime_Caller := (\<lambda>skip. None)\<rparr>) 3 = None
   \<and> InfoLevel \<le> currentLogLevel init_state
   \<and> getFileInfo (sample_platform\<lparr>runtime_Caller := (\<lambda>skip. None)\<rparr>) init_state = ''''
   \<and> logWithTimestamp (sample_platform\<lparr>runtime_Caller := (\<lambda>skip. None)\<rparr>) ''INFO'' ''m'' InfoLevel init_state
       = (None, init_state\<lparr>stdout := [''INFO [2024-12-11 15:04:05.127 UTC] (goroutine 1) m'' @ [CHR 0x0A]]\<rparr>)"
proof -
  let ?p = "sample_platform\<lparr>runtime_Caller := (\<lambda>skip. None)\<rparr>"
  have c: "runtime_Caller ?p 3 = None" by simp
  have l: "InfoLevel \<le> currentLogLevel init_state" by (simp add: init_state_def)
  note t = annotation_lookups_never_fail [of ?p "''INFO''" "''m''" InfoLevel init_state]
  from t c have g: "getFileInfo ?p init_state = ''''" by blast
  from t l g have "stdout (snd (logWithTimestamp ?p ''INFO'' ''m'' InfoLevel init_state)) =
      stdout init_state @ [''INFO'' @ '' ['' @ time_now ?p @ '']'' @ spec_context_segment ?p init_state @ '' '' @ ''m'' @ [CHR 0x0A]]"
    by blast
  moreover from t have "fst (logWithTimestamp ?p ''INFO'' ''m'' InfoLevel init_state) = None"
    by blast
  moreover have "currentLogLevel (snd (logWithTimestamp ?p ''INFO'' ''m'' InfoLevel init_state)) = InfoLevel
      \<and> showFileLine (snd (logWithTimestamp ?p ''INFO'' ''m'' InfoLevel init_state))
      \<and> showGoroutineID (snd (logWithTimestamp ?p ''INFO'' ''m'' InfoLevel init_state))"
    by (simp add: logWithTimestamp_spec_line init_state_def)
  ultimately show ?thesis
    using c l g
    by (cases "logWithTimestamp ?p ''INFO'' ''m'' InfoLevel init_state")
      (simp add: init_state_def sample_platform_def spec_context_segment_def digits.simps digit_def)
qed

section \<open>The format of a line\<close>

text \<open>
  Claim C6. A line that is written is the prefix, a space, the timestamp in square
  brackets, then, only when the source location is enabled and resolved, a space and
  the base name of the file, a colon and the line number in square brackets, then, only
  when the context identifier is enabled, a space and the word \<open>goroutine\<close> with the
  number of the goroutine in parentheses, then a space and the message. With both
  annotations disabled the line is the prefix, the bracketed timestamp and the message.
\<close>

theorem emitted_line_format:
  "level \<le> currentLogLevel s \<Longrightarrow>
     logWithTimestamp p prefix msg level s =
       (None, s\<lparr>stdout := stdout s @
          [prefix @ '' ['' @ time_now p @ '']''
           @ (if showFileLine s
              then (case runtime_Caller p 3 of
                      None \<Rightarrow> ''''
                    | Some (file, line) \<Rightarrow> '' ['' @ Base file @ '':'' @ FormatInt line @ '']'')
              else '''')
           @ (if showGoroutineID s then '' (goroutine '' @ digits (unat (goid p)) @ '')'' else '''')
           @ '' '' @ msg @ [CHR 0x0A]]\<rparr>)
     \<and> (\<not> showFileLine s \<and> \<not> showGoroutineID s \<longrightarrow>
          logWithTimestamp p prefix msg level s =
            (None, s\<lparr>stdout := stdout s @ [prefix @ '' ['' @ time_now p @ ''] '' @ msg @ [CHR 0x0A]]\<rparr>))"
  by (simp add: logWithTimestamp_spec_line spec_line_def spec_file_segment_def
      spec_context_segment_def)

theorem emitted_line_format_witness:
  "InfoLevel \<le> currentLogLevel (SetShowFileLine False (SetShowGoroutineID False init_state))
   \<and> \<not> showFileLine (SetShowFileLine False (SetShowGoroutineID False init_state))
   \<and> \<not> showGoroutineID (SetShowFileLine False (SetShowGoroutineID False init_state))
   \<and> logWithTimestamp sample_platform ''INFO'' ''ready'' InfoLevel
        (SetShowFileLine False (SetShowGoroutineID False init_state))
      = (None, (SetShowFileLine False (SetShowGoroutineID False init_state))
           \<lparr>stdout := [''INFO [2024-12-11 15:04:05.127 UTC] ready'' @ [CHR 0x0A]]\<rparr>)
   \<and> logWithTimestamp sample_platform ''INFO'' ''ready'' InfoLevel init_state
      = (None, init_state
           \<lparr>stdout := [''INFO [2024-12-11 15:04:05.127 UTC] [main.go:29] (goroutine 1) ready'' @ [CHR 0x0A]]\<rparr>)"
proof -
  let ?s = "SetShowFileLine False (SetShowGoroutineID False init_state)"
  have l: "InfoLevel \<le> currentLogLevel ?s"
    by (simp add: SetShowFileLine_def SetShowGoroutineID_def init_state_def)
  have l': "InfoLevel \<le> currentLogLevel init_state"
    by (simp add: init_state_def)
  show ?thesis
    using l emitted_line_format [OF l, of sample_platform "''INFO''" "''ready''"]
      emitted_line_format [OF l', of sample_platform "''INFO''" "''ready''"]
    by (simp add: SetShowFileLine_def SetShowGoroutineID_def init_state_def sample_platform_def
        Base_def FormatInt_def digits.simps digit_def)
qed

section \<open>The order of the levels\<close>

text \<open>
  Claim C7. The levels are numbered 0 to 5 in the order \<open>PanicLevel\<close>, \<open>ErrorLevel\<close>,
  \<open>WarningLevel\<close>, \<open>InfoLevel\<close>, \<open>DebugLevel\<close>, \<open>TraceLevel\<close>, each strictly below the next,
  and the emit routine compares in this numeric order: it writes if and only if the
  level of the call is at most the threshold.
\<close>

theorem LogLevel_order:
  "PanicLevel < ErrorLevel \<and> ErrorLevel < WarningLevel \<and> WarningLevel < InfoLevel
   \<and> InfoLevel < DebugLevel \<and> DebugLevel < TraceLevel
   \<and> [PanicLevel, ErrorLevel, WarningLevel, InfoLevel, DebugLevel, TraceLevel] = [0, 1, 2, 3, 4, 5]
   \<and> (stdout (snd (logWithTimestamp p prefix msg level s)) \<noteq> stdout s) = (level \<le> currentLogLevel s)"
  by (simp add: PanicLevel_def ErrorLevel_def WarningLevel_def InfoLevel_def DebugLevel_def
      TraceLevel_def logWithTimestamp_spec_line)

theorem LogLevel_order_witness:
  "stdout (snd (logWithTimestamp sample_platform ''E'' ''m'' ErrorLevel (SetLogLevel WarningLevel init_state))) \<noteq> []
   \<and> stdout (snd (logWithTimestamp sample_platform ''D'' ''m'' DebugLevel (SetLogLevel WarningLevel init_state))) = []"
  using LogLevel_order [of sample_platform "''E''" "''m''" ErrorLevel "SetLogLevel WarningLevel init_state"]
    LogLevel_order [of sample_platform "''D''" "''m''" DebugLevel "SetLogLevel WarningLevel init_state"]
  by (simp add: SetLogLevel_def init_state_def PanicLevel_def ErrorLevel_def WarningLevel_def
      InfoLevel_def DebugLevel_def TraceLevel_def)

section \<open>The setters\<close>

text \<open>
  Claim C8. Each setter assigns its own variable and nothing else: \<open>SetLogLevel\<close> sets
  the threshold, \<open>SetShowFileLine\<close> the source-location flag and \<open>SetShowGoroutineID\<close> the
  context-identifier flag; the two other variables and standard output are as before.
  The setters are total functions of the state, so none of them can fail.
\<close>

theorem setters_frame:
  "currentLogLevel (SetLogLevel level s) = level
   \<and> showFileLine (SetLogLevel level s) = showFileLine s
   \<and> showGoroutineID (SetLogLevel level s) = showGoroutineID s
   \<and> stdout (SetLogLevel level s) = stdout s
   \<and> showFileLine (SetShowFileLine b s) = b
   \<and> currentLogLevel (SetShowFileLine b s) = currentLogLevel s
   \<and> showGoroutineID (SetShowFileLine b s) = showGoroutineID s
   \<and> stdout (SetShowFileLine b s) = stdout s
   \<and> showGoroutineID (SetShowGoroutineID b s) = b
   \<and> currentLogLevel (SetShowGoroutineID b s) = currentLogLevel s
   \<and> showFileLine (SetShowGoroutineID b s) = showFileLine s
   \<and> stdout (SetShowGoroutineID b s) = stdout s"
  by (simp add: SetLogLevel_def SetShowFileLine_def SetShowGoroutineID_def)

theorem setters_frame_witness:
  "SetLogLevel DebugLevel init_state
     = \<lparr>currentLogLevel = 4, showFileLine = True, showGoroutineID = True, stdout = []\<rparr>
   \<and> SetShowFileLine False init_state
     = \<lparr>currentLogLevel = 3, showFileLine = False, showGoroutineID = True, stdout = []\<rparr>
   \<and> SetShowGoroutineID False init_state
     = \<lparr>currentLogLevel = 3, showFileLine = True, showGoroutineID = False, stdout = []\<rparr>"
  using setters_frame [of DebugLevel init_state False]
  by (simp add: init_state_def InfoLevel_def DebugLevel_def SetLogLevel_def SetShowFileLine_def
      SetShowGoroutineID_def)

section \<open>The value of the panic\<close>

text \<open>
  Claim C9. The panic by which \<open>Panic\<close> leaves carries exactly the interpolated message,
  for every template, operand list and state; and the line that \<open>Panic\<close> writes ends with
  a space, that same message and the line feed.
\<close>

theorem Panic_value_is_message:
  "fst (Panic p f a s) = Some (PanicValue (fmt_Sprintf p f a))
   \<and> stdout (snd (Panic p f a s)) =
       stdout s @ (if PanicLevel \<le> currentLogLevel s
                   then [(panicPrefix p @ '' ['' @ time_now p @ '']'' @ spec_file_segment p s
                          @ spec_context_segment p s)
                         @ '' '' @ fmt_Sprintf p f a @ [CHR 0x0A]]
                   else [])"
  by (simp add: Panic_spec_line spec_line_def)

theorem Panic_value_is_message_witness:
  "Panic sample_platform ''code %d'' [7] init_state
     = (Some (PanicValue ''code 7''),
        init_state
          \<lparr>stdout := [[CHR 0xF0, CHR 0x9F, CHR 0x92, CHR 0xA5]
                       @ '' PANIC     [2024-12-11 15:04:05.127 UTC] [main.go:29] (goroutine 1) code 7''
                       @ [CHR 0x0A]]\<rparr>)"
proof -
  have "currentLogLevel (snd (Panic sample_platform ''code %d'' [7] init_state)) = InfoLevel
      \<and> showFileLine (snd (Panic sample_platform ''code %d'' [7] init_state))
      \<and> showGoroutineID (snd (Panic sample_platform ''code %d'' [7] init_state))"
    by (simp add: Panic_spec_line init_state_def)
  then show ?thesis
    using Panic_value_is_message [of sample_platform "''code %d''" "[7]" init_state]
    by (cases "Panic sample_platform ''code %d'' [7] init_state")
      (simp add: sample_platform_def init_state_def PanicLevel_def InfoLevel_def panicPrefix_def
        spec_file_segment_def spec_context_segment_def Base_def FormatInt_def digits.simps
        digit_def)
qed

section \<open>A threshold below every level\<close>

text \<open>
  Claim C10. \<open>SetLogLevel\<close> stores any integer, also one that is not a level. Once the
  threshold is below \<open>PanicLevel\<close> (a negative number), no channel writes: every channel
  other than \<open>Panic\<close> returns with the state unchanged, and \<open>Panic\<close> leaves the state
  unchanged as well and still leaves by its panic, carrying the message.
\<close>

theorem threshold_below_PanicLevel:
  "level < PanicLevel \<Longrightarrow>
     currentLogLevel (SetLogLevel level s) = level
     \<and> Info p f a (SetLogLevel level s) = (None, SetLogLevel level s)
     \<and> Success p f a (SetLogLevel level s) = (None, SetLogLevel level s)
     \<and> Init p f a (SetLogLevel level s) = (None, SetLogLevel level s)
     \<and> Config p f a (SetLogLevel level s) = (None, SetLogLevel level s)
     \<and> Warning p f a (SetLogLevel level s) = (None, SetLogLevel level s)
     \<and> Error p f a (SetLogLevel level s) = (None, SetLogLevel level s)
     \<and> Debug p f a (SetLogLevel level s) = (None, SetLogLevel level s)
     \<and> Trace p f a (SetLogLevel level s) = (None, SetLogLevel level s)
     \<and> Metric p name val tags (SetLogLevel level s) = (None, SetLogLevel level s)
     \<and> Panic p f a (SetLogLevel level s) =
         (Some (PanicValue (fmt_Sprintf p f a)), SetLogLevel level s)"
  by (simp add: Info_def Success_def Init_def Config_def Warning_def Error_def Debug_def
      Trace_def Metric_def logWithTimestamp_spec_line Panic_spec_line SetLogLevel_def
      PanicLevel_def ErrorLevel_def WarningLevel_def InfoLevel_def DebugLevel_def TraceLevel_def)

theorem threshold_below_PanicLevel_witness:
  "(- 1) < PanicLevel
   \<and> Error sample_platform ''y=%d'' [5] (SetLogLevel (- 1) init_state)
       = (None, \<lparr>currentLogLevel = - 1, showFileLine = True, showGoroutineID = True, stdout = []\<rparr>)
   \<and> Panic sample_platform ''code %d'' [7] (SetLogLevel (- 1) init_state)
       = (Some (PanicValue ''code 7''),
          \<lparr>currentLogLevel = - 1, showFileLine = True, showGoroutineID = True, stdout = []\<rparr>)"
proof -
  have h: "(- 1) < PanicLevel" by (simp add: PanicLevel_def)
  show ?thesis
    using h threshold_below_PanicLevel [OF h, of init_state sample_platform "''y=%d''" "[5]"]
      threshold_below_PanicLevel [OF h, of init_state sample_platform "''code %d''" "[7]"]
    by (simp add: SetLogLevel_def init_state_def sample_platform_def FormatInt_def digits.simps
        digit_def)
qed

end
